theory Spec2Isabelle
  imports Complex_Main "HOL-Library.List_Lexorder"
begin

section \<open>Conventions of the embedding\<close>

text \<open>
  The analysis scripts compute with IEEE doubles through numpy. Finite floating-point
  values are modelled by \<^typ>\<open>real\<close>: rounding error, overflow and signed zeros are
  outside the model. Where the code can produce or test a NaN (the mean of an empty list,
  a missing metric, \<open>np.isnan\<close>), the value is a \<open>pyfloat\<close>. A two-dimensional array of
  shape \<open>(n, d)\<close> is the list of its \<open>n\<close> rows, all of length \<open>d\<close>. Exceptions are
  values of type \<open>error\<close>, and a function that can raise returns \<open>error + 'a\<close>.
\<close>

datatype error = ValueError | IndexError | ZeroDivisionError

datatype pyfloat = Num real | NaN

text \<open>Comparisons of doubles: every comparison with a NaN is false.\<close>

fun pf_less :: "pyfloat \<Rightarrow> pyfloat \<Rightarrow> bool" where
  "pf_less (Num a) (Num b) = (a < b)"
| "pf_less _ _ = False"

fun pf_le :: "pyfloat \<Rightarrow> pyfloat \<Rightarrow> bool" where
  "pf_le (Num a) (Num b) = (a \<le> b)"
| "pf_le _ _ = False"

fun isnan :: "pyfloat \<Rightarrow> bool" where
  "isnan NaN = True"
| "isnan (Num _) = False"

section \<open>The numpy operations the scripts call\<close>

text \<open>\<open>np.round\<close>: to the nearest integer, a tie going to the even neighbour.\<close>

definition np_round :: "real \<Rightarrow> real" where
  "np_round x =
     of_int (let f = \<lfloor>x\<rfloor>; d = x - of_int f
             in if d < 1 / 2 then f
                else if d > 1 / 2 then f + 1
                else if even f then f else f + 1)"

text \<open>\<open>np.linalg.norm(a - b)\<close> for two rows of the same length.\<close>

definition l2_dist :: "real list \<Rightarrow> real list \<Rightarrow> real" where
  "l2_dist a b = sqrt (sum_list (map (\<lambda>(x, y). (x - y)\<^sup>2) (zip a b)))"

text \<open>
  \<open>np.linalg.norm(vectors[:, None, :] - centroids[None, :, :], axis=2)\<close>: the matrix of
  distances, one row per vector and one column per centroid.
\<close>

definition pairwise_dist :: "real list list \<Rightarrow> real list list \<Rightarrow> real list list" where
  "pairwise_dist vectors centroids = map (\<lambda>v. map (l2_dist v) centroids) vectors"

text \<open>
  \<open>np.argmin\<close> of one row: the index of the first occurrence of the minimum. The scan
  keeps the best index and value seen so far.
\<close>

fun argmin_scan :: "real list \<Rightarrow> nat \<Rightarrow> nat \<Rightarrow> real \<Rightarrow> nat" where
  "argmin_scan [] i bi bv = bi"
| "argmin_scan (x # xs) i bi bv =
     (if x < bv then argmin_scan xs (Suc i) i x else argmin_scan xs (Suc i) bi bv)"

definition np_argmin :: "real list \<Rightarrow> error + nat" where
  "np_argmin xs = (case xs of [] \<Rightarrow> Inl ValueError | x # r \<Rightarrow> Inr (argmin_scan r 1 0 x))"

fun collect :: "(error + 'a) list \<Rightarrow> error + 'a list" where
  "collect [] = Inr []"
| "collect (Inl e # _) = Inl e"
| "collect (Inr x # r) = (case collect r of Inl e \<Rightarrow> Inl e | Inr xs \<Rightarrow> Inr (x # xs))"

text \<open>
  \<open>np.argmin(distances, axis=1)\<close> on a matrix with \<open>m\<close> columns. numpy raises
  \<open>ValueError\<close> ("attempt to get argmin of an empty sequence") when the reduced axis has
  length 0, whatever the number of rows; the list of rows does not carry \<open>m\<close> when there
  is no row, so \<open>m\<close> is passed along.
\<close>

definition argmin_axis1 :: "nat \<Rightarrow> real list list \<Rightarrow> error + nat list" where
  "argmin_axis1 m distances = (if m = 0 then Inl ValueError else collect (map np_argmin distances))"

text \<open>
  \<open>np.argsort\<close>: the indices in ascending order of their values. numpy's default sort
  is not stable, so the order it gives to equal values is not fixed; the model keeps
  them in index order. On an input with tied values the functions built on
  \<open>np_argsort\<close> may therefore differ from the code, and no property below is stated at
  such an input.
\<close>

definition np_argsort :: "real list \<Rightarrow> nat list" where
  "np_argsort xs = sort_key (\<lambda>i. xs ! i) [0..<length xs]"

text \<open>
  \<open>np.percentile(a, q)\<close> with the default linear interpolation: the value at the
  virtual index \<open>q / 100 * (n - 1)\<close> of the sorted array, between the entries at the
  floor of that index and at the next index (clipped to the last one). A \<open>q\<close> outside
  \<open>[0, 100]\<close> raises \<open>ValueError\<close>; on an empty array the read of the sorted array
  raises \<open>IndexError\<close>.
\<close>

definition lerp_at :: "real list \<Rightarrow> real \<Rightarrow> real" where
  "lerp_at s pos =
     (let lo = nat \<lfloor>pos\<rfloor>;
          hi = min (lo + 1) (length s - 1);
          g = pos - real lo
      in s ! lo + g * (s ! hi - s ! lo))"

definition np_percentile :: "real list \<Rightarrow> real \<Rightarrow> error + pyfloat" where
  "np_percentile a q =
     (if q < 0 \<or> 100 < q then Inl ValueError
      else if a = [] then Inl IndexError
      else Inr (Num (lerp_at (sort a) (q / 100 * real (length a - 1)))))"

text \<open>\<open>np.unique(rows, axis=0)\<close>: the distinct rows in lexicographic order.\<close>

definition np_unique_rows :: "real list list \<Rightarrow> real list list" where
  "np_unique_rows rows = sort (remdups rows)"

text \<open>\<open>rows.mean(axis=0)\<close> of a non-empty block of rows: the mean of each column.\<close>

definition mean_axis0 :: "real list list \<Rightarrow> real list" where
  "mean_axis0 rows = map (\<lambda>col. sum_list col / real (length col)) (transpose rows)"

text \<open>\<open>a[mask]\<close>: the rows at which the boolean mask is true.\<close>

definition select_mask :: "'a list \<Rightarrow> bool list \<Rightarrow> 'a list" where
  "select_mask xs bmask = map fst (filter snd (zip xs bmask))"

text \<open>\<open>a[mask] = vals\<close>: the rows at which the mask is true are replaced, in order.\<close>

fun assign_mask :: "'a list \<Rightarrow> bool list \<Rightarrow> 'a list \<Rightarrow> 'a list" where
  "assign_mask (b # bs) (m # ms) vals =
     (if m then (case vals of v # vs \<Rightarrow> v # assign_mask bs ms vs
                            | [] \<Rightarrow> b # assign_mask bs ms [])
      else b # assign_mask bs ms vals)"
| "assign_mask bs _ _ = bs"

text \<open>A slice \<open>xs[a:b]\<close> of Python, negative bounds counting from the end.\<close>

definition py_bound :: "nat \<Rightarrow> int \<Rightarrow> nat" where
  "py_bound n i = (if i < 0 then nat (int n + i) else min n (nat i))"

definition py_slice :: "'a list \<Rightarrow> int \<Rightarrow> int \<Rightarrow> 'a list" where
  "py_slice xs a b =
     (let lo = py_bound (length xs) a; hi = py_bound (length xs) b
      in take (hi - lo) (drop lo xs))"

section \<open>Compression (msmarco\_run\_compression.py)\<close>

text \<open>
  \<open>snap_to_grid(vectors, step)\<close> is \<open>np.round(vectors / step) * step\<close>, elementwise. The
  source has no check on \<open>step\<close>. For \<open>step = 0\<close> the floating-point division gives
  infinities and NaN, which the real-valued model does not show: nothing below is stated
  for \<open>step = 0\<close>.
\<close>

definition snap_to_grid :: "real list list \<Rightarrow> real \<Rightarrow> real list list" where
  "snap_to_grid vectors step = map (map (\<lambda>x. np_round (x / step) * step)) vectors"

text \<open>
  \<open>run_kmeans\<close>. scikit-learn's \<open>KMeans(n_clusters, random_state, n_init=10).fit\<close> is
  an external library: it is the parameter \<open>fit\<close>, which returns \<open>cluster_centers_\<close>
  and \<open>labels_\<close>. A \<open>k \<le> 0\<close> is replaced by 1; an input of at most \<open>k\<close> rows is
  returned as it is, as both components.
\<close>

type_synonym kmeans_fit = "real list list \<Rightarrow> int \<Rightarrow> int \<Rightarrow> real list list \<times> nat list"

definition run_kmeans ::
  "kmeans_fit \<Rightarrow> real list list \<Rightarrow> int \<Rightarrow> int \<Rightarrow> real list list \<times> real list list" where
  "run_kmeans fit vectors k random_state =
     (let k1 = (if k \<le> 0 then 1 else k)
      in if int (length vectors) \<le> k1 then (vectors, vectors)
         else (let (centers, labels) = fit vectors k1 random_state
               in (map (\<lambda>l. centers ! l) labels, centers)))"

definition extract_unique_vectors :: "real list list \<Rightarrow> real \<Rightarrow> real list list" where
  "extract_unique_vectors vectors tolerance =
     np_unique_rows (map (map (\<lambda>x. np_round (x / tolerance) * tolerance)) vectors)"

text \<open>The default \<open>tolerance=1e-9\<close>.\<close>

definition default_tolerance :: real where
  "default_tolerance = 1 / 10 ^ 9"

text \<open>
  \<open>classify_boundary_vectors\<close>: the ambiguity of a vector is the gap between its
  distances to the two nearest centroids; a vector is boundary when its ambiguity is at
  most the given percentile of all ambiguities.
\<close>

definition ambiguity_scores :: "real list list \<Rightarrow> real list list \<Rightarrow> real list" where
  "ambiguity_scores vectors centroids =
     (let sorted_distances = map sort (pairwise_dist vectors centroids);
          d1 = map (\<lambda>r. r ! 0) sorted_distances;
          d2 = (if length centroids > 1 then map (\<lambda>r. r ! 1) sorted_distances else d1)
      in map (\<lambda>(b, a). b - a) (zip d2 d1))"

definition classify_boundary_vectors ::
  "real list list \<Rightarrow> real list list \<Rightarrow> real \<Rightarrow> error + bool list" where
  "classify_boundary_vectors vectors centroids percentile =
     (if length centroids < 2 then Inr (replicate (length vectors) False)
      else (let scores = ambiguity_scores vectors centroids
            in case np_percentile scores percentile of
                 Inl e \<Rightarrow> Inl e
               | Inr threshold \<Rightarrow> Inr (map (\<lambda>a. pf_le (Num a) threshold) scores)))"

text \<open>
  The \<open>info\<close> dictionary of a compression. The keys \<open>boundary_step\<close>,
  \<open>num_boundary_vectors\<close> and \<open>num_bulk_vectors\<close> exist in boundary-aware mode only. The
  elapsed wall-clock time is an input of the model.
\<close>

record compression_info =
  info_mode :: string
  info_grid :: real
  info_k :: int
  info_boundary_step :: "real option"
  info_num_boundary_vectors :: "nat option"
  info_num_bulk_vectors :: "nat option"
  info_num_unique_centroids :: nat
  info_compression_time_seconds :: real

text \<open>Assignment of every vector to its nearest row of \<open>centroids\<close>.\<close>

definition nearest_rows :: "real list list \<Rightarrow> real list list \<Rightarrow> error + real list list" where
  "nearest_rows vectors centroids =
     (case argmin_axis1 (length centroids) (pairwise_dist vectors centroids) of
        Inl e \<Rightarrow> Inl e
      | Inr assignments \<Rightarrow> Inr (map (\<lambda>a. centroids ! a) assignments))"

definition compress_baseline ::
  "kmeans_fit \<Rightarrow> real \<Rightarrow> real list list \<Rightarrow> real \<Rightarrow> int \<Rightarrow> int
     \<Rightarrow> error + real list list \<times> compression_info" where
  "compress_baseline fit elapsed vectors grid k random_state =
     (let ideal_centroids = snd (run_kmeans fit vectors k random_state);
          snapped_centroids = snap_to_grid ideal_centroids grid;
          unique_snapped_centroids = extract_unique_vectors snapped_centroids default_tolerance
      in case nearest_rows vectors unique_snapped_centroids of
           Inl e \<Rightarrow> Inl e
         | Inr compressed \<Rightarrow>
             Inr (compressed,
                  \<lparr>info_mode = ''baseline'', info_grid = grid, info_k = k,
                   info_boundary_step = None, info_num_boundary_vectors = None,
                   info_num_bulk_vectors = None,
                   info_num_unique_centroids = length unique_snapped_centroids,
                   info_compression_time_seconds = elapsed\<rparr>))"

definition count_true :: "bool list \<Rightarrow> nat" where
  "count_true bmask = length (filter id bmask)"

definition compress_boundary_aware ::
  "kmeans_fit \<Rightarrow> real \<Rightarrow> real list list \<Rightarrow> real \<Rightarrow> int \<Rightarrow> int
     \<Rightarrow> error + real list list \<times> compression_info" where
  "compress_boundary_aware fit elapsed vectors grid k random_state =
     (let boundary_step = grid * (1 / 2);
          ideal_centroids = snd (run_kmeans fit vectors k random_state)
      in case classify_boundary_vectors vectors ideal_centroids 10 of
           Inl e \<Rightarrow> Inl e
         | Inr boundary_mask \<Rightarrow>
            (let num_boundary = count_true boundary_mask;
                 unique_bulk_centroids =
                   extract_unique_vectors (snap_to_grid ideal_centroids grid) default_tolerance;
                 unique_boundary_centroids =
                   extract_unique_vectors (snap_to_grid ideal_centroids boundary_step)
                     default_tolerance;
                 zeros = map (map (\<lambda>_. 0)) vectors;
                 bulk_mask = map Not boundary_mask
             in case (if count_true bulk_mask > 0
                      then (case nearest_rows (select_mask vectors bulk_mask)
                                   unique_bulk_centroids of
                              Inl e \<Rightarrow> Inl e
                            | Inr rows \<Rightarrow> Inr (assign_mask zeros bulk_mask rows))
                      else Inr zeros) of
                  Inl e \<Rightarrow> Inl e
                | Inr compressed1 \<Rightarrow>
                   (case (if count_true boundary_mask > 0
                          then (case nearest_rows (select_mask vectors boundary_mask)
                                       unique_boundary_centroids of
                                  Inl e \<Rightarrow> Inl e
                                | Inr rows \<Rightarrow> Inr (assign_mask compressed1 boundary_mask rows))
                          else Inr compressed1) of
                      Inl e \<Rightarrow> Inl e
                    | Inr compressed \<Rightarrow>
                        Inr (compressed,
                             \<lparr>info_mode = ''boundary-aware'', info_grid = grid, info_k = k,
                              info_boundary_step = Some boundary_step,
                              info_num_boundary_vectors = Some num_boundary,
                              info_num_bulk_vectors = Some (count_true bulk_mask),
                              info_num_unique_centroids =
                                length (extract_unique_vectors
                                  (unique_bulk_centroids @ unique_boundary_centroids)
                                  default_tolerance),
                              info_compression_time_seconds = elapsed\<rparr>))))"

section \<open>The hand-written k-means (run\_real\_world\_evaluation.py)\<close>

text \<open>
  One pass of the update loop \<open>for i in range(k)\<close>: a centroid with at least one
  assigned row becomes the mean of its rows, an empty cluster keeps its centroid.
\<close>

definition update_centroids ::
  "real list list \<Rightarrow> nat list \<Rightarrow> int \<Rightarrow> real list list \<Rightarrow> real list list" where
  "update_centroids embeddings assignments k centroids =
     fold (\<lambda>i cs. let cluster_points = select_mask embeddings (map (\<lambda>a. a = i) assignments)
                    in if length cluster_points > 0 then cs[i := mean_axis0 cluster_points]
                       else cs)
          [0..<nat k] centroids"

text \<open>The loop \<open>for _ in range(10)\<close>, with the number of remaining rounds as argument.\<close>

fun lloyd_iterations ::
  "nat \<Rightarrow> real list list \<Rightarrow> int \<Rightarrow> real list list \<Rightarrow> error + real list list" where
  "lloyd_iterations 0 embeddings k centroids = Inr centroids"
| "lloyd_iterations (Suc t) embeddings k centroids =
     (case argmin_axis1 (length centroids) (pairwise_dist embeddings centroids) of
        Inl e \<Rightarrow> Inl e
      | Inr assignments \<Rightarrow>
          lloyd_iterations t embeddings k (update_centroids embeddings assignments k centroids))"

text \<open>
  \<open>np.linalg.norm(rows - v, axis=1)\<close> and \<open>rows[np.argmin(...)]\<close>: the row of
  \<open>rows\<close> nearest to \<open>v\<close>.
\<close>

definition dists_to :: "real list list \<Rightarrow> real list \<Rightarrow> real list" where
  "dists_to rows v = map (\<lambda>r. l2_dist r v) rows"

definition nearest_row :: "real list list \<Rightarrow> real list \<Rightarrow> error + real list" where
  "nearest_row rows v =
     (case np_argmin (dists_to rows v) of Inl e \<Rightarrow> Inl e | Inr j \<Rightarrow> Inr (rows ! j))"

text \<open>
  \<open>simple_kmeans_compression\<close>. The copies returned for \<open>n \<le> k\<close> are equal to the
  input. After the guard, \<open>embeddings[:k]\<close> has \<open>k\<close> rows when \<open>k > 0\<close>, so the
  columns 0 and 1 read from the sorted distances exist whenever they are read.
\<close>

definition simple_kmeans_compression ::
  "real list list \<Rightarrow> int \<Rightarrow> real \<Rightarrow> bool \<Rightarrow> error + real list list \<times> real list list" where
  "simple_kmeans_compression embeddings k grid_step boundary_aware =
     (let n = length embeddings
      in if int n \<le> k then Inr (embeddings, embeddings)
         else (case lloyd_iterations 10 embeddings k (py_slice embeddings 0 k) of
                 Inl e \<Rightarrow> Inl e
               | Inr centroids \<Rightarrow>
                  (let snapped_centroids = snap_to_grid centroids grid_step
                   in if boundary_aware
                      then (let sorted_dists = map sort (pairwise_dist embeddings centroids);
                                ambiguity = (if k > 1 then map (\<lambda>r. r ! 1 - r ! 0) sorted_dists
                                             else map (\<lambda>r. r ! 0) sorted_dists)
                            in case np_percentile ambiguity 10 of
                                 Inl e \<Rightarrow> Inl e
                               | Inr threshold \<Rightarrow>
                                  (let is_boundary = map (\<lambda>a. pf_le (Num a) threshold) ambiguity;
                                       boundary_centroids =
                                         snap_to_grid centroids (grid_step * (1 / 2))
                                   in case collect
                                        (map (\<lambda>(v, b). if b then nearest_row boundary_centroids v
                                                        else nearest_row snapped_centroids v)
                                             (zip embeddings is_boundary)) of
                                        Inl e \<Rightarrow> Inl e
                                      | Inr compressed \<Rightarrow> Inr (compressed, snapped_centroids)))
                      else (case nearest_rows embeddings snapped_centroids of
                              Inl e \<Rightarrow> Inl e
                            | Inr compressed \<Rightarrow> Inr (compressed, snapped_centroids)))))"

section \<open>Self-referential retrieval metrics (real\_world\_validation.py)\<close>

text \<open>\<open>np.mean\<close> of a list of numbers: NaN on the empty list.\<close>

definition np_mean :: "real list \<Rightarrow> pyfloat" where
  "np_mean xs = (if xs = [] then NaN else Num (sum_list xs / real (length xs)))"

definition row_at :: "'a list \<Rightarrow> nat \<Rightarrow> error + 'a" where
  "row_at xs i = (if i < length xs then Inr (xs ! i) else Inl IndexError)"

text \<open>
  Elementwise division of two one-dimensional arrays: the lengths agree, or one of them
  is 1 and is broadcast; otherwise numpy raises \<open>ValueError\<close>.
\<close>

definition np_div :: "real list \<Rightarrow> real list \<Rightarrow> error + real list" where
  "np_div a b =
     (if length a = length b then Inr (map (\<lambda>(x, y). x / y) (zip a b))
      else if length a = 1 then Inr (map (\<lambda>y. hd a / y) b)
      else if length b = 1 then Inr (map (\<lambda>x. x / hd b) a)
      else Inl ValueError)"

text \<open>The body of the loop of \<open>compute_recall_at_k\<close> for the query \<open>i\<close>.\<close>

definition recall_row :: "real list list \<Rightarrow> real list list \<Rightarrow> int \<Rightarrow> nat \<Rightarrow> error + real" where
  "recall_row original_embeddings compressed_embeddings k i =
     (let orig_nearest =
            py_slice (np_argsort (dists_to original_embeddings (original_embeddings ! i)))
              1 (k + 1)
      in case row_at compressed_embeddings i of
           Inl e \<Rightarrow> Inl e
         | Inr ci \<Rightarrow>
            (let comp_nearest = py_slice (np_argsort (dists_to compressed_embeddings ci)) 1 (k + 1);
                 intersection = card (set orig_nearest \<inter> set comp_nearest)
             in if k = 0 then Inl ZeroDivisionError
                else Inr (real intersection / real_of_int k)))"

definition compute_recall_at_k_validation ::
  "real list list \<Rightarrow> real list list \<Rightarrow> int \<Rightarrow> error + pyfloat" where
  "compute_recall_at_k_validation original_embeddings compressed_embeddings k =
     (let n = length original_embeddings
      in if int n < k + 1 then Inr (Num 1)
         else (case collect (map (recall_row original_embeddings compressed_embeddings k) [0..<n]) of
                 Inl e \<Rightarrow> Inl e
               | Inr recalls \<Rightarrow> Inr (np_mean recalls)))"

text \<open>
  \<open>compute_mrr\<close> sets the query's own distance to \<open>np.inf\<close> before taking the argmin:
  a distance is a \<open>real option\<close> here, \<open>None\<close> standing for infinity.
\<close>

fun inf_less :: "real option \<Rightarrow> real option \<Rightarrow> bool" where
  "inf_less (Some a) (Some b) = (a < b)"
| "inf_less (Some a) None = True"
| "inf_less None _ = False"

fun argmin_inf_scan :: "real option list \<Rightarrow> nat \<Rightarrow> nat \<Rightarrow> real option \<Rightarrow> nat" where
  "argmin_inf_scan [] i bi bv = bi"
| "argmin_inf_scan (x # xs) i bi bv =
     (if inf_less x bv then argmin_inf_scan xs (Suc i) i x
      else argmin_inf_scan xs (Suc i) bi bv)"

definition argmin_inf :: "real option list \<Rightarrow> error + nat" where
  "argmin_inf xs = (case xs of [] \<Rightarrow> Inl ValueError | x # r \<Rightarrow> Inr (argmin_inf_scan r 1 0 x))"

text \<open>\<open>np.where(ranks == v)[0][0]\<close>: the first position of \<open>v\<close>, \<open>IndexError\<close> if absent.\<close>

fun first_position :: "nat list \<Rightarrow> nat \<Rightarrow> nat \<Rightarrow> error + nat" where
  "first_position [] v j = Inl IndexError"
| "first_position (x # xs) v j = (if x = v then Inr j else first_position xs v (Suc j))"

definition mrr_row :: "real list list \<Rightarrow> real list list \<Rightarrow> int \<Rightarrow> nat \<Rightarrow> error + real" where
  "mrr_row original_embeddings compressed_embeddings k i =
     (let orig_dists =
            (map Some (dists_to original_embeddings (original_embeddings ! i)))[i := None]
      in case argmin_inf orig_dists of
           Inl e \<Rightarrow> Inl e
         | Inr true_nearest \<Rightarrow>
            (case row_at compressed_embeddings i of
               Inl e \<Rightarrow> Inl e
             | Inr ci \<Rightarrow>
                (case first_position (np_argsort (dists_to compressed_embeddings ci))
                        true_nearest 0 of
                   Inl e \<Rightarrow> Inl e
                 | Inr j \<Rightarrow>
                    (let rank = j + 1
                     in Inr (if int rank \<le> k then 1 / real rank else 0)))))"

text \<open>\<open>compute_mrr\<close> has no guard on the number of vectors: the loop always runs.\<close>

definition compute_mrr_validation ::
  "real list list \<Rightarrow> real list list \<Rightarrow> int \<Rightarrow> error + pyfloat" where
  "compute_mrr_validation original_embeddings compressed_embeddings k =
     (let n = length original_embeddings
      in case collect (map (mrr_row original_embeddings compressed_embeddings k) [0..<n]) of
           Inl e \<Rightarrow> Inl e
         | Inr reciprocal_ranks \<Rightarrow> Inr (np_mean reciprocal_ranks))"

text \<open>\<open>np.sum(relevance[order] / np.log2(np.arange(2, k + 2)))\<close>.\<close>

definition discounted_sum :: "real list \<Rightarrow> nat list \<Rightarrow> int \<Rightarrow> error + real" where
  "discounted_sum relevance order k =
     (case collect (map (row_at relevance) order) of
        Inl e \<Rightarrow> Inl e
      | Inr gains \<Rightarrow>
         (case np_div gains (map (\<lambda>j. log 2 (real_of_int j)) [2..k + 1]) of
            Inl e \<Rightarrow> Inl e
          | Inr terms \<Rightarrow> Inr (sum_list terms)))"

definition ndcg_row :: "real list list \<Rightarrow> real list list \<Rightarrow> int \<Rightarrow> nat \<Rightarrow> error + real" where
  "ndcg_row original_embeddings compressed_embeddings k i =
     (let orig_dists = dists_to original_embeddings (original_embeddings ! i);
          relevance = (map (\<lambda>d. 1 / (d + 1 / 10 ^ 10)) orig_dists)[i := 0];
          ideal_order = py_slice (rev (np_argsort relevance)) 0 k
      in case discounted_sum relevance ideal_order k of
           Inl e \<Rightarrow> Inl e
         | Inr ideal_dcg \<Rightarrow>
            (case row_at compressed_embeddings i of
               Inl e \<Rightarrow> Inl e
             | Inr ci \<Rightarrow>
                (let actual_order =
                       py_slice (np_argsort (dists_to compressed_embeddings ci)) 1 (k + 1)
                 in case discounted_sum relevance actual_order k of
                      Inl e \<Rightarrow> Inl e
                    | Inr actual_dcg \<Rightarrow> Inr (actual_dcg / (ideal_dcg + 1 / 10 ^ 10)))))"

definition compute_ndcg_validation ::
  "real list list \<Rightarrow> real list list \<Rightarrow> int \<Rightarrow> error + pyfloat" where
  "compute_ndcg_validation original_embeddings compressed_embeddings k =
     (let n = length original_embeddings
      in if int n < k + 1 then Inr (Num 1)
         else (case collect (map (ndcg_row original_embeddings compressed_embeddings k) [0..<n]) of
                 Inl e \<Rightarrow> Inl e
               | Inr ndcgs \<Rightarrow> Inr (np_mean ndcgs)))"

section \<open>Ground-truth retrieval metrics (msmarco\_eval\_retrieval.py)\<close>

text \<open>
  Passage identifiers are strings, the relevant identifiers of a query a (finite) set.
  The two metric functions that share a name with those of real\_world\_validation.py
  carry the suffix \<open>_eval\<close>; those above carry \<open>_validation\<close>.
\<close>

definition compute_recall_at_k_eval :: "string list \<Rightarrow> string set \<Rightarrow> int \<Rightarrow> real" where
  "compute_recall_at_k_eval retrieved relevant k =
     (if relevant = {} then 0
      else (let retrieved_at_k = set (py_slice retrieved 0 k);
                relevant_retrieved = retrieved_at_k \<inter> relevant
            in real (card relevant_retrieved) / real (card relevant)))"

text \<open>The loop \<open>for i, passage_id in enumerate(retrieved)\<close> of \<open>compute_mrr\<close>.\<close>

fun mrr_scan :: "string list \<Rightarrow> string set \<Rightarrow> nat \<Rightarrow> real" where
  "mrr_scan [] relevant i = 0"
| "mrr_scan (passage_id # rest) relevant i =
     (if passage_id \<in> relevant then 1 / real (i + 1) else mrr_scan rest relevant (Suc i))"

definition compute_mrr_eval :: "string list \<Rightarrow> string set \<Rightarrow> real" where
  "compute_mrr_eval retrieved relevant = mrr_scan retrieved relevant 0"

text \<open>The accumulating loop of \<open>compute_dcg_at_k\<close>: \<open>dcg += 1.0 / np.log2(i + 2)\<close>.\<close>

fun dcg_scan :: "string list \<Rightarrow> string set \<Rightarrow> nat \<Rightarrow> real \<Rightarrow> real" where
  "dcg_scan [] relevant i dcg = dcg"
| "dcg_scan (passage_id # rest) relevant i dcg =
     dcg_scan rest relevant (Suc i)
       (if passage_id \<in> relevant then dcg + 1 / log 2 (real (i + 2)) else dcg)"

definition compute_dcg_at_k :: "string list \<Rightarrow> string set \<Rightarrow> int \<Rightarrow> real" where
  "compute_dcg_at_k retrieved relevant k = dcg_scan (py_slice retrieved 0 k) relevant 0 0"

definition compute_ndcg_at_k :: "string list \<Rightarrow> string set \<Rightarrow> int \<Rightarrow> real" where
  "compute_ndcg_at_k retrieved relevant k =
     (let dcg = compute_dcg_at_k retrieved relevant k;
          num_relevant = card relevant;
          ideal_retrieved = replicate (nat (min (int num_relevant) k)) ''relevant'';
          ideal_relevant = set ideal_retrieved;
          idcg = compute_dcg_at_k ideal_retrieved ideal_relevant k
      in if idcg = 0 then 0 else dcg / idcg)"

section \<open>Threshold verdict (analyze\_validation\_results.py)\<close>

text \<open>
  The statistics of one metric of one method, and the dictionary \<open>stats\<close> from method
  to metric to statistics. Dictionaries are association lists in insertion order, read
  with \<^const>\<open>map_of\<close>; their keys are distinct.
\<close>

record metric_stats =
  st_mean :: real
  st_std :: real
  st_min :: real
  st_max :: real
  st_median :: real

record metric_comparison =
  cmp_baseline :: real
  cmp_boundary_aware :: real
  cmp_improvement_pct :: real
  cmp_significant :: bool

definition key_metrics :: "string list" where
  "key_metrics = [''recall_at_10'', ''recall_at_100'', ''mrr'', ''ndcg_at_10'',
                  ''mse_global'', ''compression_time_seconds'']"

definition higher_is_better :: "string list" where
  "higher_is_better = [''recall_at_10'', ''recall_at_100'', ''mrr'', ''ndcg_at_10'']"

definition compare_metric ::
  "(string \<times> metric_stats) list \<Rightarrow> (string \<times> metric_stats) list \<Rightarrow> string
     \<Rightarrow> (string \<times> metric_comparison) option" where
  "compare_metric baseline boundary_aware metric =
     (case (map_of baseline metric, map_of boundary_aware metric) of
        (Some b, Some ba) \<Rightarrow>
          (let baseline_val = st_mean b;
               ba_val = st_mean ba;
               improvement =
                 (if metric \<in> set higher_is_better
                  then (if baseline_val \<noteq> 0 then (ba_val - baseline_val) / baseline_val else 0)
                  else (if baseline_val \<noteq> 0 then (baseline_val - ba_val) / baseline_val else 0))
           in Some (metric,
                    \<lparr>cmp_baseline = baseline_val, cmp_boundary_aware = ba_val,
                     cmp_improvement_pct = improvement * 100,
                     cmp_significant = (\<bar>improvement\<bar> > 2 / 100)\<rparr>))
      | _ \<Rightarrow> None)"

definition compare_methods ::
  "(string \<times> (string \<times> metric_stats) list) list \<Rightarrow> (string \<times> metric_comparison) list" where
  "compare_methods stats =
     (case (map_of stats ''lattice-hybrid'', map_of stats ''boundary-aware'') of
        (Some baseline, Some boundary_aware) \<Rightarrow>
          List.map_filter (compare_metric baseline boundary_aware) key_metrics
      | _ \<Rightarrow> [])"

text \<open>
  The verdict strings of the source carry an emoji before the word; the word is the
  constructor.
\<close>

datatype verdict = INSUFFICIENT_DATA | EXPLOITABLE | OBSERVATIONAL | REJECTED

definition improvement_of :: "(string \<times> metric_comparison) list \<Rightarrow> string \<Rightarrow> real" where
  "improvement_of comparison metric =
     (case map_of comparison metric of None \<Rightarrow> 0 | Some e \<Rightarrow> cmp_improvement_pct e)"

definition determine_verdict :: "(string \<times> metric_comparison) list \<Rightarrow> verdict" where
  "determine_verdict comparison =
     (if comparison = [] then INSUFFICIENT_DATA
      else (let recall_improvement = improvement_of comparison ''recall_at_10'';
                time_overhead = improvement_of comparison ''compression_time_seconds'';
                time_overhead_abs = \<bar>time_overhead\<bar>;
                significant_recall_improvement = (recall_improvement > 2);
                acceptable_overhead = (time_overhead_abs < 100)
            in if significant_recall_improvement \<and> acceptable_overhead then EXPLOITABLE
               else if recall_improvement > 0 \<and> recall_improvement < 2 then OBSERVATIONAL
               else REJECTED))"

section \<open>Count-based verdict (compare\_boundary\_aware.py)\<close>

record comparison_row =
  row_grid :: real
  baseline_mse_global :: pyfloat
  boundary_mse_global :: pyfloat
  baseline_mse_boundary :: pyfloat
  boundary_mse_boundary :: pyfloat
  baseline_delta :: pyfloat
  boundary_delta :: pyfloat
  baseline_knn :: pyfloat
  boundary_knn :: pyfloat
  baseline_lsi :: pyfloat
  boundary_lsi :: pyfloat

record improvement_counts =
  imp_mse_global :: nat
  imp_mse_boundary :: nat
  imp_delta_boundary :: nat
  imp_knn_overlap :: nat
  imp_lsi :: nat

text \<open>
  The four summary sentences of the source, in the order of its branches: "shows
  consistent, measurable improvement (at least 70% of cases)", "shows moderate
  improvement (at least 50% of cases)", "shows marginal improvement (some cases)" and
  "No measurable improvement - boundary geometry is observational only".
\<close>

datatype summary_text = Summary_strong | Summary_moderate | Summary_marginal | Summary_none

record verdict_result =
  v_exploitable :: bool
  v_confidence :: string
  v_improvements :: improvement_counts
  v_summary :: summary_text
  v_total_comparisons :: nat

fun pf_abs :: "pyfloat \<Rightarrow> pyfloat" where
  "pf_abs (Num a) = Num \<bar>a\<bar>"
| "pf_abs NaN = NaN"

definition both_numbers :: "pyfloat \<Rightarrow> pyfloat \<Rightarrow> bool" where
  "both_numbers a b = (\<not> isnan a \<and> \<not> isnan b)"

text \<open>The body of \<open>for row in rows\<close>: the state is the counters and \<open>total_comparisons\<close>.\<close>

definition count_row :: "comparison_row \<Rightarrow> improvement_counts \<times> nat \<Rightarrow> improvement_counts \<times> nat" where
  "count_row row st =
     (let (c0, total0) = st;
          total1 = (if both_numbers (baseline_mse_global row) (boundary_mse_global row)
                    then total0 + 1 else total0);
          c1 = (if both_numbers (baseline_mse_global row) (boundary_mse_global row)
                   \<and> pf_less (boundary_mse_global row) (baseline_mse_global row)
                then c0\<lparr>imp_mse_global := imp_mse_global c0 + 1\<rparr> else c0);
          c2 = (if both_numbers (baseline_mse_boundary row) (boundary_mse_boundary row)
                   \<and> pf_less (boundary_mse_boundary row) (baseline_mse_boundary row)
                then c1\<lparr>imp_mse_boundary := imp_mse_boundary c1 + 1\<rparr> else c1);
          c3 = (if both_numbers (baseline_delta row) (boundary_delta row)
                   \<and> pf_less (pf_abs (boundary_delta row)) (pf_abs (baseline_delta row))
                then c2\<lparr>imp_delta_boundary := imp_delta_boundary c2 + 1\<rparr> else c2);
          c4 = (if both_numbers (baseline_knn row) (boundary_knn row)
                   \<and> pf_less (baseline_knn row) (boundary_knn row)
                then c3\<lparr>imp_knn_overlap := imp_knn_overlap c3 + 1\<rparr> else c3);
          c5 = (if both_numbers (baseline_lsi row) (boundary_lsi row)
                   \<and> pf_less (baseline_lsi row) (boundary_lsi row)
                then c4\<lparr>imp_lsi := imp_lsi c4 + 1\<rparr> else c4)
      in (c5, total1))"

definition count_values :: "improvement_counts \<Rightarrow> nat list" where
  "count_values c =
     [imp_mse_global c, imp_mse_boundary c, imp_delta_boundary c, imp_knn_overlap c, imp_lsi c]"

definition MODERATE_IMPROVEMENT_THRESHOLD :: real where
  "MODERATE_IMPROVEMENT_THRESHOLD = 5 / 10"

definition HIGH_IMPROVEMENT_THRESHOLD :: real where
  "HIGH_IMPROVEMENT_THRESHOLD = 7 / 10"

definition compute_verdict :: "comparison_row list \<Rightarrow> verdict_result" where
  "compute_verdict rows =
     (let (improvements, total_comparisons) =
            fold count_row rows
              (\<lparr>imp_mse_global = 0, imp_mse_boundary = 0, imp_delta_boundary = 0,
                imp_knn_overlap = 0, imp_lsi = 0\<rparr>, 0);
          any_improvement = list_ex (\<lambda>count. count > 0) (count_values improvements);
          consistent_improvement =
            list_ex (\<lambda>count. real count \<ge> real total_comparisons * MODERATE_IMPROVEMENT_THRESHOLD)
              (count_values improvements);
          strong_improvement =
            list_ex (\<lambda>count. real count \<ge> real total_comparisons * HIGH_IMPROVEMENT_THRESHOLD)
              (count_values improvements)
      in if strong_improvement
         then \<lparr>v_exploitable = True, v_confidence = ''high'', v_improvements = improvements,
               v_summary = Summary_strong, v_total_comparisons = total_comparisons\<rparr>
         else if consistent_improvement
         then \<lparr>v_exploitable = True, v_confidence = ''moderate'', v_improvements = improvements,
               v_summary = Summary_moderate, v_total_comparisons = total_comparisons\<rparr>
         else if any_improvement
         then \<lparr>v_exploitable = True, v_confidence = ''low'', v_improvements = improvements,
               v_summary = Summary_marginal, v_total_comparisons = total_comparisons\<rparr>
         else \<lparr>v_exploitable = False, v_confidence = ''high'', v_improvements = improvements,
               v_summary = Summary_none, v_total_comparisons = total_comparisons\<rparr>)"

section \<open>Stability analyzer (run\_boundary\_eval.py)\<close>

text \<open>
  A run is modelled by its list \<open>result['points']\<close>; a point has its grid step, its
  \<open>k\<close> and its metrics. A metric that is absent reads as NaN.
\<close>

record sweep_point =
  pt_grid :: real
  pt_k :: int
  pt_metrics :: "(string \<times> pyfloat) list"

text \<open>\<open>grid_to_deltas[grid].append(delta)\<close>, creating the entry at its first use.\<close>

fun append_delta :: "real \<Rightarrow> pyfloat \<Rightarrow> (real \<times> pyfloat list) list \<Rightarrow> (real \<times> pyfloat list) list" where
  "append_delta grid delta [] = [(grid, [delta])]"
| "append_delta grid delta ((g, ds) # rest) =
     (if g = grid then (g, ds @ [delta]) # rest else (g, ds) # append_delta grid delta rest)"

definition point_delta :: "sweep_point \<Rightarrow> pyfloat" where
  "point_delta point =
     (case map_of (pt_metrics point) ''delta_boundary'' of None \<Rightarrow> NaN | Some d \<Rightarrow> d)"

definition collect_deltas :: "sweep_point list list \<Rightarrow> (real \<times> pyfloat list) list" where
  "collect_deltas results =
     fold (\<lambda>result acc. fold (\<lambda>point. append_delta (pt_grid point) (point_delta point)) result acc)
       results []"

text \<open>
  \<open>np.mean\<close>, \<open>np.std\<close> and \<open>np.median\<close> of values that may be NaN: one NaN makes
  the result NaN, and so does the empty list.
\<close>

fun numbers_of :: "pyfloat list \<Rightarrow> real list option" where
  "numbers_of [] = Some []"
| "numbers_of (NaN # _) = None"
| "numbers_of (Num a # r) = (case numbers_of r of None \<Rightarrow> None | Some xs \<Rightarrow> Some (a # xs))"

definition pf_mean :: "pyfloat list \<Rightarrow> pyfloat" where
  "pf_mean vs = (case numbers_of vs of None \<Rightarrow> NaN | Some xs \<Rightarrow> np_mean xs)"

definition pf_std :: "pyfloat list \<Rightarrow> pyfloat" where
  "pf_std vs =
     (case numbers_of vs of
        None \<Rightarrow> NaN
      | Some xs \<Rightarrow>
         (if xs = [] then NaN
          else (let m = sum_list xs / real (length xs)
                in Num (sqrt (sum_list (map (\<lambda>x. \<bar>x - m\<bar>\<^sup>2) xs) / real (length xs))))))"

definition pf_median :: "pyfloat list \<Rightarrow> pyfloat" where
  "pf_median vs =
     (case numbers_of vs of
        None \<Rightarrow> NaN
      | Some xs \<Rightarrow>
         (if xs = [] then NaN
          else (let s = sort xs; n = length xs
                in if odd n then Num (s ! (n div 2))
                   else Num ((s ! (n div 2 - 1) + s ! (n div 2)) / 2))))"

fun pf_times :: "pyfloat \<Rightarrow> real \<Rightarrow> pyfloat" where
  "pf_times (Num a) c = Num (a * c)"
| "pf_times NaN c = NaN"

text \<open>
  The test of the zero-crossing loop on two adjacent means:
  \<open>(m[i] <= 0 and m[i+1] > 0) or (m[i] >= 0 and m[i+1] < 0)\<close>.
\<close>

definition crosses_zero :: "pyfloat \<Rightarrow> pyfloat \<Rightarrow> bool" where
  "crosses_zero a b =
     ((pf_le a (Num 0) \<and> pf_less (Num 0) b) \<or> (pf_le (Num 0) a \<and> pf_less b (Num 0)))"

text \<open>The loop \<open>for i in range(len(mean_delta) - 1)\<close>, appending \<open>grid_values[i]\<close>.\<close>

definition find_zero_crossings :: "real list \<Rightarrow> pyfloat list \<Rightarrow> real list" where
  "find_zero_crossings grid_values mean_delta =
     fold (\<lambda>i zero_crossings.
             if crosses_zero (mean_delta ! i) (mean_delta ! (i + 1))
             then zero_crossings @ [grid_values ! i] else zero_crossings)
          [0..<length mean_delta - 1] []"

record stability_metrics =
  sm_grid_values :: "real list"
  sm_mean_delta :: "pyfloat list"
  sm_std_delta :: "pyfloat list"
  sm_zero_crossings :: "real list"
  sm_high_variance_regions :: "real list"

definition deltas_at :: "(real \<times> pyfloat list) list \<Rightarrow> real \<Rightarrow> pyfloat list" where
  "deltas_at grid_to_deltas grid = (case map_of grid_to_deltas grid of None \<Rightarrow> [] | Some ds \<Rightarrow> ds)"

definition compute_stability_metrics ::
  "sweep_point list list \<Rightarrow> string \<Rightarrow> stability_metrics" where
  "compute_stability_metrics results dataset_name =
     (let grid_to_deltas = collect_deltas results;
          grid_values = sort (map fst grid_to_deltas);
          mean_delta = map (\<lambda>grid. pf_mean (deltas_at grid_to_deltas grid)) grid_values;
          std_delta = map (\<lambda>grid. pf_std (deltas_at grid_to_deltas grid)) grid_values;
          zero_crossings = find_zero_crossings grid_values mean_delta;
          high_variance_regions =
            (if length std_delta > 0
             then (let threshold = pf_times (pf_median std_delta) (3 / 2)
                   in map (\<lambda>i. grid_values ! i)
                        (filter (\<lambda>i. pf_less threshold (std_delta ! i)) [0..<length std_delta]))
             else [])
      in \<lparr>sm_grid_values = grid_values, sm_mean_delta = mean_delta, sm_std_delta = std_delta,
          sm_zero_crossings = zero_crossings,
          sm_high_variance_regions = high_variance_regions\<rparr>)"

section \<open>The count-based rule and the sign change, in the words of the specification\<close>








text \<open>
  The mean of the target metric at a grid step: the deltas recorded at that step, over
  all runs and all values of \<open>k\<close>, are summed and divided by their number. The source
  averages with \<open>np.mean\<close>, so one NaN among them makes the mean NaN.
\<close>

definition deltas_for :: "real \<Rightarrow> sweep_point list \<Rightarrow> pyfloat list" where
  "deltas_for grid points = map point_delta (filter (\<lambda>p. pt_grid p = grid) points)"

fun number :: "pyfloat \<Rightarrow> real" where
  "number (Num a) = a"
| "number NaN = 0"

definition mean_over_runs :: "pyfloat list \<Rightarrow> pyfloat" where
  "mean_over_runs ds =
     (if list_ex isnan ds then NaN else Num (sum_list (map number ds) / real (length ds)))"

text \<open>
  The words of the specification, "the mean changes sign (inclusive of touching zero)":
  the two adjacent means are numbers of different sign, zero being a sign of its own, so
  that a mean reaching zero and a mean leaving zero both count.
\<close>

definition sign_changes_touching :: "pyfloat \<Rightarrow> pyfloat \<Rightarrow> bool" where
  "sign_changes_touching a b = (case (a, b) of (Num x, Num y) \<Rightarrow> sgn x \<noteq> sgn y | _ \<Rightarrow> False)"

text \<open>
  The rule that holds of the code: the mean at the left step is at most zero and the
  mean at the right step above zero, or the mean at the left step is at least zero and
  the mean at the right step below zero. A mean of exactly zero counts at the left step
  only.
\<close>

definition crosses_from_left :: "pyfloat \<Rightarrow> pyfloat \<Rightarrow> bool" where
  "crosses_from_left a b =
     (case (a, b) of (Num x, Num y) \<Rightarrow> (x \<le> 0 \<and> 0 < y) \<or> (0 \<le> x \<and> y < 0) | _ \<Rightarrow> False)"

section \<open>Inputs of the closed examples\<close>

text \<open>
  The closed examples below stop before the call of the clustering library; they pass
  this \<open>fit\<close>, which returns no centre.
\<close>

definition fit_unreached :: kmeans_fit where
  "fit_unreached vectors k random_state = ([], [])"

text \<open>
  Aggregate statistics in which the mean Recall@10 rises from \<open>25/32\<close> to \<open>51/64\<close>,
  an improvement of exactly 2 percent, and the mean compression time from 1 to 1.1
  seconds.
\<close>

definition constant_stats :: "real \<Rightarrow> metric_stats" where
  "constant_stats v = \<lparr>st_mean = v, st_std = 0, st_min = v, st_max = v, st_median = v\<rparr>"

definition stats_two_percent :: "(string \<times> (string \<times> metric_stats) list) list" where
  "stats_two_percent =
     [(''lattice-hybrid'',
        [(''recall_at_10'', constant_stats (25 / 32)),
         (''compression_time_seconds'', constant_stats 1)]),
      (''boundary-aware'',
        [(''recall_at_10'', constant_stats (51 / 64)),
         (''compression_time_seconds'', constant_stats (11 / 10))])]"

text \<open>Mean Recall@10 of 0.50 against 0.52, compression time 1 against 1.1 seconds.\<close>

definition stats_four_percent :: "(string \<times> (string \<times> metric_stats) list) list" where
  "stats_four_percent =
     [(''lattice-hybrid'',
        [(''recall_at_10'', constant_stats (50 / 100)),
         (''compression_time_seconds'', constant_stats 1)]),
      (''boundary-aware'',
        [(''recall_at_10'', constant_stats (52 / 100)),
         (''compression_time_seconds'', constant_stats (11 / 10))])]"




text \<open>
  Two runs over the steps 0.1, 0.2, 0.3, 0.4, the first listed from the last step to the
  first and with two values of \<open>k\<close> at step 0.1. The deltas of a step average to -0.1,
  -0.05, 0.02 and 0.08.
\<close>

definition delta_point :: "real \<Rightarrow> int \<Rightarrow> real \<Rightarrow> sweep_point" where
  "delta_point grid k delta =
     \<lparr>pt_grid = grid, pt_k = k, pt_metrics = [(''delta_boundary'', Num delta)]\<rparr>"

definition sweep_example :: "sweep_point list list" where
  "sweep_example =
     [[delta_point (4 / 10) 5 (10 / 100), delta_point (3 / 10) 5 (3 / 100),
       delta_point (2 / 10) 5 (- 4 / 100), delta_point (1 / 10) 5 (- 12 / 100),
       delta_point (1 / 10) 10 (- 8 / 100)],
      [delta_point (1 / 10) 5 (- 10 / 100), delta_point (2 / 10) 5 (- 6 / 100),
       delta_point (3 / 10) 5 (1 / 100), delta_point (4 / 10) 5 (6 / 100)]]"

text \<open>Two runs whose mean is -0.1 at step 0.1 and exactly 0 at step 0.2.\<close>

definition sweep_touching :: "sweep_point list list" where
  "sweep_touching =
     [[delta_point (1 / 10) 5 (- 15 / 100), delta_point (2 / 10) 5 (- 2 / 100)],
      [delta_point (1 / 10) 5 (- 5 / 100), delta_point (2 / 10) 5 (2 / 100)]]"

section \<open>Properties of the quantizer\<close>

lemma np_round_of_int: "np_round (of_int n) = of_int n"
  by (simp add: np_round_def)

lemma np_round_is_int: "\<exists>n. np_round x = of_int n"
  unfolding np_round_def by blast

lemma np_round_np_round: "np_round (np_round x) = np_round x"
proof -
  obtain n where n: "np_round x = of_int n"
    using np_round_is_int by blast
  show ?thesis
    by (simp add: n np_round_of_int)
qed

text \<open>
  C3. Quantization onto the grid of step \<open>s > 0\<close> is idempotent: snapping an already
  snapped array again at the same step leaves it unchanged.
\<close>

theorem snap_to_grid_idempotent:
  "0 < s \<Longrightarrow> snap_to_grid (snap_to_grid v s) s = snap_to_grid v s"
  by (simp add: snap_to_grid_def np_round_np_round)

theorem snap_to_grid_idempotent_witness:
  "0 < (1 / 10 :: real) \<and>
   snap_to_grid (snap_to_grid [[13 / 50, - 7 / 20]] (1 / 10)) (1 / 10)
     = snap_to_grid [[13 / 50, - 7 / 20]] (1 / 10)"
  using snap_to_grid_idempotent [of "1 / 10" "[[13 / 50, - 7 / 20]]"] by simp

lemma np_round_minus: "np_round (- x) = - np_round x"
proof (cases "x = of_int \<lfloor>x\<rfloor>")
  case True
  then obtain n where n: "x = of_int n" ..
  have "np_round (of_int (- n)) = of_int (- n)" by (rule np_round_of_int)
  then show ?thesis by (simp add: n np_round_of_int)
next
  case False
  then have fl: "\<lfloor>- x\<rfloor> = - \<lfloor>x\<rfloor> - 1"
    by (simp add: floor_minus ceiling_altdef)
  have d: "0 < x - of_int \<lfloor>x\<rfloor>" "x - of_int \<lfloor>x\<rfloor> < 1"
    using False by linarith+
  show ?thesis
    unfolding np_round_def Let_def fl using d
    by (auto simp add: field_simps)
qed

section \<open>Non-positive parameters\<close>

lemma snap_to_grid_minus: "snap_to_grid v (- s) = snap_to_grid v s"
  by (simp add: snap_to_grid_def np_round_minus)

lemma run_kmeans_nonpositive:
  "k \<le> 0 \<Longrightarrow> run_kmeans fit vectors k random_state = run_kmeans fit vectors 1 random_state"
  by (simp add: run_kmeans_def)

lemma compress_baseline_nonpositive_k:
  "k \<le> 0 \<Longrightarrow>
     map_sum id fst (compress_baseline fit elapsed vectors grid k random_state)
       = map_sum id fst (compress_baseline fit elapsed vectors grid 1 random_state)"
  using run_kmeans_nonpositive [of k fit vectors random_state]
  by (simp add: compress_baseline_def Let_def split: sum.splits)

lemma compress_boundary_aware_nonpositive_k:
  "k \<le> 0 \<Longrightarrow>
     map_sum id fst (compress_boundary_aware fit elapsed vectors grid k random_state)
       = map_sum id fst (compress_boundary_aware fit elapsed vectors grid 1 random_state)"
  using run_kmeans_nonpositive [of k fit vectors random_state]
  by (simp add: compress_boundary_aware_def Let_def split: sum.splits)

lemma compress_baseline_minus:
  "map_sum id fst (compress_baseline fit elapsed vectors (- grid) k random_state)
     = map_sum id fst (compress_baseline fit elapsed vectors grid k random_state)"
  by (simp add: compress_baseline_def snap_to_grid_minus Let_def split: sum.splits)

lemma compress_boundary_aware_minus:
  "map_sum id fst (compress_boundary_aware fit elapsed vectors (- grid) k random_state)
     = map_sum id fst (compress_boundary_aware fit elapsed vectors grid k random_state)"
  by (simp add: compress_boundary_aware_def snap_to_grid_minus Let_def split: sum.splits)

text \<open>
  C6. No compression operation rejects a non-positive parameter. For \<open>k \<le> 0\<close>,
  \<open>run_kmeans\<close> replaces \<open>k\<close> by 1, and both strategies compress exactly as they do
  for \<open>k = 1\<close>. \<open>snap_to_grid\<close> has no check on the step: for a negative step it
  returns what it returns for the positive step of the same size, and so do both
  strategies.
\<close>

theorem nonpositive_parameters_accepted:
  "(k \<le> 0 \<longrightarrow>
      run_kmeans fit vectors k random_state = run_kmeans fit vectors 1 random_state \<and>
      map_sum id fst (compress_baseline fit elapsed vectors grid k random_state)
        = map_sum id fst (compress_baseline fit elapsed vectors grid 1 random_state) \<and>
      map_sum id fst (compress_boundary_aware fit elapsed vectors grid k random_state)
        = map_sum id fst (compress_boundary_aware fit elapsed vectors grid 1 random_state)) \<and>
   (step < 0 \<longrightarrow>
      snap_to_grid vectors step = snap_to_grid vectors (- step) \<and>
      map_sum id fst (compress_baseline fit elapsed vectors step k random_state)
        = map_sum id fst (compress_baseline fit elapsed vectors (- step) k random_state) \<and>
      map_sum id fst (compress_boundary_aware fit elapsed vectors step k random_state)
        = map_sum id fst (compress_boundary_aware fit elapsed vectors (- step) k random_state))"
  using run_kmeans_nonpositive [of k fit vectors random_state]
    compress_baseline_nonpositive_k [of k fit elapsed vectors grid random_state]
    compress_boundary_aware_nonpositive_k [of k fit elapsed vectors grid random_state]
    snap_to_grid_minus [of vectors step]
    compress_baseline_minus [of fit elapsed vectors step k random_state]
    compress_boundary_aware_minus [of fit elapsed vectors step k random_state]
  by simp

theorem nonpositive_parameters_accepted_witness:
  "(0 :: int) \<le> 0 \<and> (- 1 / 10 :: real) < 0 \<and>
   run_kmeans fit_unreached [[1, 2]] 0 42 = run_kmeans fit_unreached [[1, 2]] 1 42 \<and>
   map_sum id fst (compress_baseline fit_unreached 0 [[1, 2]] (1 / 10) 0 42)
     = map_sum id fst (compress_baseline fit_unreached 0 [[1, 2]] (1 / 10) 1 42) \<and>
   map_sum id fst (compress_boundary_aware fit_unreached 0 [[1, 2]] (1 / 10) 0 42)
     = map_sum id fst (compress_boundary_aware fit_unreached 0 [[1, 2]] (1 / 10) 1 42) \<and>
   snap_to_grid [[1, 2]] (- 1 / 10) = snap_to_grid [[1, 2]] (- (- 1 / 10)) \<and>
   map_sum id fst (compress_baseline fit_unreached 0 [[1, 2]] (- 1 / 10) 0 42)
     = map_sum id fst (compress_baseline fit_unreached 0 [[1, 2]] (- (- 1 / 10)) 0 42) \<and>
   map_sum id fst (compress_boundary_aware fit_unreached 0 [[1, 2]] (- 1 / 10) 0 42)
     = map_sum id fst (compress_boundary_aware fit_unreached 0 [[1, 2]] (- (- 1 / 10)) 0 42)"
  using nonpositive_parameters_accepted
          [of 0 fit_unreached "[[1, 2]]" 42 0 "1 / 10" "- 1 / 10"]
  by simp

text \<open>
  With \<open>k = 0\<close> and the step \<open>-0.1\<close>, the baseline strategy returns a result and its
  metadata, not an error.
\<close>

theorem nonpositive_parameters_counterexample:
  "compress_baseline fit_unreached 0 [[1, 2]] (- 1 / 10) 0 42 =
     Inr ([[1, 2]],
          \<lparr>info_mode = ''baseline'', info_grid = - 1 / 10, info_k = 0,
           info_boundary_step = None, info_num_boundary_vectors = None,
           info_num_bulk_vectors = None, info_num_unique_centroids = 1,
           info_compression_time_seconds = 0\<rparr>)"
  by (simp add: compress_baseline_def run_kmeans_def snap_to_grid_def extract_unique_vectors_def
      np_unique_rows_def nearest_rows_def argmin_axis1_def pairwise_dist_def l2_dist_def
      np_argmin_def default_tolerance_def np_round_def Let_def)

section \<open>Properties of the clustering fallback\<close>

text \<open>
  C4. When the input has at most \<open>k\<close> rows, both clustering implementations return it
  unchanged, as the compressed vectors and as the centroids: \<open>run_kmeans\<close> without
  calling the library, \<open>simple_kmeans_compression\<close> without running an iteration.
\<close>

theorem cluster_identity_fallback:
  "int (length vectors) \<le> k \<Longrightarrow>
     run_kmeans fit vectors k random_state = (vectors, vectors) \<and>
     simple_kmeans_compression vectors k grid_step boundary_aware = Inr (vectors, vectors)"
  by (auto simp add: run_kmeans_def simple_kmeans_compression_def Let_def)

theorem cluster_identity_fallback_witness:
  "int (length [[1, 2], [3, 4 :: real]]) \<le> 2 \<and>
   run_kmeans fit_unreached [[1, 2], [3, 4]] 2 42 = ([[1, 2], [3, 4]], [[1, 2], [3, 4]]) \<and>
   simple_kmeans_compression [[1, 2], [3, 4]] 2 (1 / 10) True
     = Inr ([[1, 2], [3, 4]], [[1, 2], [3, 4]])"
  using cluster_identity_fallback [of "[[1, 2], [3, 4]]" 2 fit_unreached 42 "1 / 10" True]
  by simp

section \<open>Properties of the compression strategies on an empty input\<close>

lemma run_kmeans_empty: "run_kmeans fit [] k random_state = ([], [])"
  by (simp add: run_kmeans_def Let_def)

lemma extract_unique_vectors_empty: "extract_unique_vectors [] tolerance = []"
  by (simp add: extract_unique_vectors_def np_unique_rows_def)

text \<open>
  The boundary-aware strategy guards both assignments by the number of selected rows:
  on an empty input it returns an empty array and its metadata.
\<close>

lemma compress_boundary_aware_empty:
  "compress_boundary_aware fit elapsed [] grid k random_state =
     Inr ([], \<lparr>info_mode = ''boundary-aware'', info_grid = grid, info_k = k,
               info_boundary_step = Some (grid * (1 / 2)),
               info_num_boundary_vectors = Some 0,
               info_num_bulk_vectors = Some 0,
               info_num_unique_centroids = 0,
               info_compression_time_seconds = elapsed\<rparr>)"
  by (simp add: compress_boundary_aware_def run_kmeans_empty snap_to_grid_def
      extract_unique_vectors_empty classify_boundary_vectors_def count_true_def Let_def)

text \<open>
  C7. On an empty input the baseline strategy does not return an empty result: the set
  of snapped centroids is empty, and the argmin over its (empty) axis raises
  \<open>ValueError\<close>, for every grid step and every \<open>k\<close>.
\<close>

theorem compress_baseline_empty_raises:
  "compress_baseline fit elapsed [] grid k random_state = Inl ValueError"
  by (simp add: compress_baseline_def run_kmeans_empty snap_to_grid_def
      extract_unique_vectors_empty nearest_rows_def argmin_axis1_def Let_def)

section \<open>Properties of the self-referential metrics on few vectors\<close>

lemma compute_recall_at_k_validation_degenerate:
  "int (length original_embeddings) < k + 1 \<Longrightarrow>
     compute_recall_at_k_validation original_embeddings compressed_embeddings k = Inr (Num 1)"
  by (simp add: compute_recall_at_k_validation_def)

lemma compute_ndcg_validation_degenerate:
  "int (length original_embeddings) < k + 1 \<Longrightarrow>
     compute_ndcg_validation original_embeddings compressed_embeddings k = Inr (Num 1)"
  by (simp add: compute_ndcg_validation_def)

text \<open>Without any vector, \<open>compute_mrr\<close> returns the mean of an empty list, a NaN.\<close>

lemma compute_mrr_validation_empty:
  "compute_mrr_validation [] compressed_embeddings k = Inr NaN"
  by (simp add: compute_mrr_validation_def np_mean_def)

text \<open>
  C8. \<open>compute_mrr\<close> has no such guard. On two vectors, left as they are by the
  compression, with \<open>k = 10\<close>, each vector ranks itself first in the compressed space and
  its true neighbour second: the result is 0.5, not 1.0.
\<close>

theorem compute_mrr_validation_two_vectors:
  "compute_mrr_validation [[0], [1]] [[0], [1]] 10 = Inr (Num (1 / 2))"
  by (simp add: compute_mrr_validation_def mrr_row_def dists_to_def l2_dist_def argmin_inf_def
      row_at_def np_argsort_def np_mean_def upt_rec)

section \<open>Properties of the threshold verdict\<close>

lemma determine_verdict_exploitable_iff:
  "comparison \<noteq> [] \<Longrightarrow>
     determine_verdict comparison = EXPLOITABLE \<longleftrightarrow>
       improvement_of comparison ''recall_at_10'' > 2 \<and>
       \<bar>improvement_of comparison ''compression_time_seconds''\<bar> < 100"
  by (simp add: determine_verdict_def Let_def)

lemma determine_verdict_observational_iff:
  "determine_verdict comparison = OBSERVATIONAL \<longleftrightarrow>
     comparison \<noteq> [] \<and> 0 < improvement_of comparison ''recall_at_10'' \<and>
     improvement_of comparison ''recall_at_10'' < 2"
  by (auto simp add: determine_verdict_def Let_def)

text \<open>The example of the specification: 0.50 against 0.52, with 10 percent more time.\<close>

lemma determine_verdict_four_percent:
  "improvement_of (compare_methods stats_four_percent) ''recall_at_10'' = 4 \<and>
   improvement_of (compare_methods stats_four_percent) ''compression_time_seconds'' = - 10 \<and>
   determine_verdict (compare_methods stats_four_percent) = EXPLOITABLE"
  by (simp add: stats_four_percent_def constant_stats_def compare_methods_def
      compare_metric_def key_metrics_def higher_is_better_def improvement_of_def
      List.map_filter_def determine_verdict_def)

text \<open>
  C1. An improvement of exactly 2 percent is neither above 2 nor below 2: the verdict is
  \<open>REJECTED\<close>, where improvements just under 2 percent are \<open>OBSERVATIONAL\<close> and
  improvements just over it \<open>EXPLOITABLE\<close>.
\<close>

theorem determine_verdict_two_percent:
  "improvement_of (compare_methods stats_two_percent) ''recall_at_10'' = 2 \<and>
   determine_verdict (compare_methods stats_two_percent) = REJECTED"
  by (simp add: stats_two_percent_def constant_stats_def compare_methods_def
      compare_metric_def key_metrics_def higher_is_better_def improvement_of_def
      List.map_filter_def determine_verdict_def)

section \<open>Properties of the boundary classifier\<close>

lemma sorted_nth0_Min: "sorted s \<Longrightarrow> s \<noteq> [] \<Longrightarrow> s ! 0 = Min (set s)"
  by (cases s) (auto intro!: Min_eqI [symmetric])

lemma sorted_last_Max: "sorted s \<Longrightarrow> s \<noteq> [] \<Longrightarrow> s ! (length s - 1) = Max (set s)"
proof -
  assume a: "sorted s" "s \<noteq> []"
  have "\<And>y. y \<in> set s \<Longrightarrow> y \<le> s ! (length s - 1)"
  proof -
    fix y assume "y \<in> set s"
    then obtain i where "i < length s" "s ! i = y" by (auto simp: in_set_conv_nth)
    then show "y \<le> s ! (length s - 1)"
      using a sorted_nth_mono [of s i "length s - 1"] by auto
  qed
  moreover have "s ! (length s - 1) \<in> set s" using a by simp
  ultimately show ?thesis by (intro Max_eqI [symmetric]) auto
qed

lemma lerp_at_0: "lerp_at s 0 = s ! 0"
  by (simp add: lerp_at_def)

lemma lerp_at_last: "lerp_at s (real (length s - 1)) = s ! (length s - 1)"
  by (simp add: lerp_at_def)

lemma lerp_at_bounds:
  assumes "sorted s" "0 \<le> t" "t \<le> real (length s - 1)" "s \<noteq> []"
  shows "s ! nat \<lfloor>t\<rfloor> \<le> lerp_at s t" "lerp_at s t \<le> s ! min (nat \<lfloor>t\<rfloor> + 1) (length s - 1)"
proof -
  let ?lo = "nat \<lfloor>t\<rfloor>" let ?hi = "min (?lo + 1) (length s - 1)"
  have lo: "real ?lo \<le> t" "t < real ?lo + 1" using assms(2) by linarith+
  have lolen: "?lo \<le> length s - 1" using lo assms(3) by linarith
  have hilen: "?hi < length s" using assms(4) by (cases s) auto
  have le: "s ! ?lo \<le> s ! ?hi"
    using assms(1) lolen hilen by (intro sorted_nth_mono) auto
  have g0: "0 \<le> t - real ?lo" and g1: "t - real ?lo \<le> 1" using lo by linarith+
  show "s ! ?lo \<le> lerp_at s t"
    using le g0 by (simp add: lerp_at_def Let_def)
  have "(t - real ?lo) * (s ! ?hi - s ! ?lo) \<le> 1 * (s ! ?hi - s ! ?lo)"
    using le g1 by (intro mult_right_mono) auto
  then show "lerp_at s t \<le> s ! ?hi"
    by (simp add: lerp_at_def Let_def)
qed

lemma lerp_at_mono:
  assumes "sorted s" "s \<noteq> []" "0 \<le> t" "t \<le> u" "u \<le> real (length s - 1)"
  shows "lerp_at s t \<le> lerp_at s u"
proof -
  let ?i = "nat \<lfloor>t\<rfloor>" let ?j = "nat \<lfloor>u\<rfloor>"
  have ij: "?i \<le> ?j" using assms(3,4) by (simp add: floor_mono nat_mono)
  have jlen: "?j \<le> length s - 1" using assms by linarith
  show ?thesis
  proof (cases "?i = ?j")
    case True
    have hilen: "min (?j + 1) (length s - 1) < length s" using assms(2) by (cases s) auto
    have "s ! ?j \<le> s ! min (?j + 1) (length s - 1)"
      using assms(1) jlen hilen by (intro sorted_nth_mono) auto
    then have "(t - real ?j) * (s ! min (?j + 1) (length s - 1) - s ! ?j)
             \<le> (u - real ?j) * (s ! min (?j + 1) (length s - 1) - s ! ?j)"
      using assms(4) by (intro mult_right_mono) auto
    then show ?thesis using True by (simp add: lerp_at_def Let_def)
  next
    case False
    then have lt: "?i + 1 \<le> ?j" using ij by linarith
    have a: "lerp_at s t \<le> s ! min (?i + 1) (length s - 1)"
      using lerp_at_bounds(2) [of s t] assms by simp
    have jl: "?j < length s" using jlen assms(2) by (cases s) auto
    have "s ! min (?i + 1) (length s - 1) \<le> s ! ?j"
      using assms(1) lt jl by (intro sorted_nth_mono) auto
    moreover have "s ! ?j \<le> lerp_at s u"
      using lerp_at_bounds(1) [of s u] assms by simp
    ultimately show ?thesis using a by linarith
  qed
qed


lemma length_ambiguity_scores: "length (ambiguity_scores v c) = length v"
  by (simp add: ambiguity_scores_def Let_def pairwise_dist_def)

lemma sort_not_Nil: "a \<noteq> [] \<Longrightarrow> sort a \<noteq> []"
  by (metis length_0_conv length_sort)

lemma np_percentile_0: "a \<noteq> [] \<Longrightarrow> np_percentile a 0 = Inr (Num (Min (set a)))"
  using sorted_nth0_Min [of "sort a"] by (simp add: np_percentile_def lerp_at_0 sort_not_Nil)

lemma np_percentile_100: "a \<noteq> [] \<Longrightarrow> np_percentile a 100 = Inr (Num (Max (set a)))"
  using sorted_last_Max [of "sort a"] lerp_at_last [of "sort a"]
  by (simp add: np_percentile_def sort_not_Nil)

lemma np_percentile_mono:
  assumes "a \<noteq> []" "0 \<le> p" "p \<le> q" "q \<le> 100"
  shows "\<exists>x y. np_percentile a p = Inr (Num x) \<and> np_percentile a q = Inr (Num y) \<and> x \<le> y"
proof -
  have "lerp_at (sort a) (p / 100 * real (length a - 1))
      \<le> lerp_at (sort a) (q / 100 * real (length a - 1))"
  proof (rule lerp_at_mono)
    show "sorted (sort a)" by simp
    show "sort a \<noteq> []" using assms(1) by (rule sort_not_Nil)
    show "0 \<le> p / 100 * real (length a - 1)" using assms(2) by simp
    show "p / 100 * real (length a - 1) \<le> q / 100 * real (length a - 1)"
      using assms(3) by (intro mult_right_mono) auto
    have "q / 100 * real (length a - 1) \<le> 1 * real (length a - 1)"
      using assms(4) by (intro mult_right_mono) auto
    then show "q / 100 * real (length a - 1) \<le> real (length (sort a) - 1)" by simp
  qed
  then show ?thesis using assms by (simp add: np_percentile_def)
qed

lemma classify_unfold:
  "2 \<le> length centroids \<Longrightarrow> np_percentile (ambiguity_scores vectors centroids) p = Inr (Num x) \<Longrightarrow>
   classify_boundary_vectors vectors centroids p
     = Inr (map (\<lambda>a. a \<le> x) (ambiguity_scores vectors centroids))"
  by (simp add: classify_boundary_vectors_def Let_def)

text \<open>
  C5. For a non-empty set of vectors and at least two centroids: with
  percentile 0 the classifier marks exactly the vectors whose ambiguity is the minimum,
  so at least one vector; with percentile 100 it marks every vector; and a vector marked
  at a percentile is marked at every larger percentile.
\<close>

theorem classify_boundary_percentiles:
  assumes "vectors \<noteq> []" "2 \<le> length centroids"
  shows "(\<exists>m0. classify_boundary_vectors vectors centroids 0 = Inr m0 \<and>
               length m0 = length vectors \<and> 0 < count_true m0 \<and>
               (\<forall>i < length vectors.
                   m0 ! i \<longleftrightarrow> ambiguity_scores vectors centroids ! i
                                  = Min (set (ambiguity_scores vectors centroids)))) \<and>
         classify_boundary_vectors vectors centroids 100 = Inr (replicate (length vectors) True) \<and>
         (0 \<le> p \<and> p \<le> q \<and> q \<le> 100 \<longrightarrow>
            (\<exists>mp mq. classify_boundary_vectors vectors centroids p = Inr mp \<and>
                      classify_boundary_vectors vectors centroids q = Inr mq \<and>
                      length mp = length vectors \<and> length mq = length vectors \<and>
                      (\<forall>i < length vectors. mp ! i \<longrightarrow> mq ! i)))"
proof -
  let ?amb = "ambiguity_scores vectors centroids"
  have len: "length ?amb = length vectors" by (rule length_ambiguity_scores)
  have ne: "?amb \<noteq> []" using assms(1) len by (metis length_0_conv)
  have fin: "finite (set ?amb)" "set ?amb \<noteq> {}" using ne by auto
  let ?m0 = "map (\<lambda>a. a \<le> Min (set ?amb)) ?amb"
  have c0: "classify_boundary_vectors vectors centroids 0 = Inr ?m0"
    using classify_unfold [OF assms(2) np_percentile_0 [OF ne]] .
  have "Min (set ?amb) \<in> set ?amb" using fin by (rule Min_in)
  then have "filter (\<lambda>a. a \<le> Min (set ?amb)) ?amb \<noteq> []"
    by (auto simp: filter_empty_conv)
  then have cnt: "0 < count_true ?m0"
    by (simp add: count_true_def filter_map comp_def)
  have eqv: "\<forall>i < length vectors. ?m0 ! i \<longleftrightarrow> ?amb ! i = Min (set ?amb)"
  proof (intro allI impI)
    fix i assume i: "i < length vectors"
    then have "?amb ! i \<in> set ?amb" using len by simp
    then have mle: "Min (set ?amb) \<le> ?amb ! i" using fin by simp
    have "?m0 ! i \<longleftrightarrow> ?amb ! i \<le> Min (set ?amb)" using i len by simp
    also have "\<dots> \<longleftrightarrow> ?amb ! i = Min (set ?amb)" using mle by (rule antisym_conv)
    finally show "?m0 ! i \<longleftrightarrow> ?amb ! i = Min (set ?amb)" .
  qed
  have part0: "\<exists>m0. classify_boundary_vectors vectors centroids 0 = Inr m0 \<and>
               length m0 = length vectors \<and> 0 < count_true m0 \<and>
               (\<forall>i < length vectors. m0 ! i \<longleftrightarrow> ?amb ! i = Min (set ?amb))"
    using c0 cnt eqv len by (intro exI [of _ ?m0]) simp
  have "map (\<lambda>a. a \<le> Max (set ?amb)) ?amb = map (\<lambda>a. True) ?amb"
    by (rule map_cong) simp_all
  then have "map (\<lambda>a. a \<le> Max (set ?amb)) ?amb = replicate (length vectors) True"
    by (simp add: map_replicate_const len)
  then have part100: "classify_boundary_vectors vectors centroids 100
      = Inr (replicate (length vectors) True)"
    using classify_unfold [OF assms(2) np_percentile_100 [OF ne]] by simp
  have partm: "0 \<le> p \<and> p \<le> q \<and> q \<le> 100 \<longrightarrow>
            (\<exists>mp mq. classify_boundary_vectors vectors centroids p = Inr mp \<and>
                      classify_boundary_vectors vectors centroids q = Inr mq \<and>
                      length mp = length vectors \<and> length mq = length vectors \<and>
                      (\<forall>i < length vectors. mp ! i \<longrightarrow> mq ! i))"
  proof
    assume pq: "0 \<le> p \<and> p \<le> q \<and> q \<le> 100"
    then obtain x y where xy: "np_percentile ?amb p = Inr (Num x)"
        "np_percentile ?amb q = Inr (Num y)" "x \<le> y"
      using np_percentile_mono [OF ne, of p q] by blast
    have "classify_boundary_vectors vectors centroids p = Inr (map (\<lambda>a. a \<le> x) ?amb)"
      using classify_unfold [OF assms(2) xy(1)] .
    moreover have "classify_boundary_vectors vectors centroids q = Inr (map (\<lambda>a. a \<le> y) ?amb)"
      using classify_unfold [OF assms(2) xy(2)] .
    moreover have "\<forall>i < length vectors. map (\<lambda>a. a \<le> x) ?amb ! i \<longrightarrow> map (\<lambda>a. a \<le> y) ?amb ! i"
      using xy(3) len by auto
    ultimately show "\<exists>mp mq. classify_boundary_vectors vectors centroids p = Inr mp \<and>
                      classify_boundary_vectors vectors centroids q = Inr mq \<and>
                      length mp = length vectors \<and> length mq = length vectors \<and>
                      (\<forall>i < length vectors. mp ! i \<longrightarrow> mq ! i)"
      using len by (intro exI [of _ "map (\<lambda>a. a \<le> x) ?amb"] exI [of _ "map (\<lambda>a. a \<le> y) ?amb"]) simp
  qed
  show ?thesis using part0 part100 partm by blast
qed

theorem classify_boundary_percentiles_witness:
  "[[0], [3 :: real]] \<noteq> [] \<and> 2 \<le> length [[0], [4 :: real]] \<and>
   (0 :: real) \<le> 10 \<and> (10 :: real) \<le> 90 \<and> (90 :: real) \<le> 100 \<and>
   (\<exists>m0. classify_boundary_vectors [[0], [3]] [[0], [4]] 0 = Inr m0 \<and>
         length m0 = length [[0], [3 :: real]] \<and> 0 < count_true m0 \<and>
         (\<forall>i < length [[0], [3 :: real]].
             m0 ! i \<longleftrightarrow> ambiguity_scores [[0], [3]] [[0], [4]] ! i
                            = Min (set (ambiguity_scores [[0], [3]] [[0], [4]])))) \<and>
   classify_boundary_vectors [[0], [3]] [[0], [4]] 100
     = Inr (replicate (length [[0], [3 :: real]]) True) \<and>
   (\<exists>mp mq. classify_boundary_vectors [[0], [3]] [[0], [4]] 10 = Inr mp \<and>
             classify_boundary_vectors [[0], [3]] [[0], [4]] 90 = Inr mq \<and>
             length mp = length [[0], [3 :: real]] \<and> length mq = length [[0], [3 :: real]] \<and>
             (\<forall>i < length [[0], [3 :: real]]. mp ! i \<longrightarrow> mq ! i))"
  using classify_boundary_percentiles [of "[[0], [3]]" "[[0], [4]]" 10 90]
  by simp

text \<open>
  Two vectors with ambiguities 4 and 2, at percentile 0: the second vector is marked.
\<close>

theorem classify_boundary_percentile_zero_counterexample:
  "classify_boundary_vectors [[0], [3]] [[0], [4]] 0 = Inr [False, True]"
  by (simp add: classify_boundary_vectors_def ambiguity_scores_def pairwise_dist_def l2_dist_def
      np_percentile_def lerp_at_def Let_def)

section \<open>Properties of the ground-truth metrics\<close>

lemma log2_3_lower: "84 / 53 < log 2 3"
proof -
  have l1: "log 2 ((2::real) ^ 84) = real 84 * log 2 2" by (rule log_nat_power) simp
  have l2: "log 2 ((3::real) ^ 53) = real 53 * log 2 3" by (rule log_nat_power) simp
  have "log 2 ((2::real) ^ 84) < log 2 ((3::real) ^ 53)"
    by (subst log_less_cancel_iff) simp_all
  then show ?thesis unfolding l1 l2 by simp
qed

lemma log2_3_upper: "log 2 3 < 485 / 306"
proof -
  have l1: "log 2 ((2::real) ^ 485) = real 485 * log 2 2" by (rule log_nat_power) simp
  have l2: "log 2 ((3::real) ^ 306) = real 306 * log 2 3" by (rule log_nat_power) simp
  have "log 2 ((3::real) ^ 306) < log 2 ((2::real) ^ 485)"
    by (subst log_less_cancel_iff) simp_all
  then show ?thesis unfolding l1 l2 by simp
qed

lemma log2_4: "log 2 4 = 2"
proof -
  have "log 2 ((2::real) ^ 2) = real 2 * log 2 2" by (rule log_nat_power) simp
  then show ?thesis by simp
qed

lemma ndcg_example_value:
  "compute_ndcg_at_k [''p3'', ''p1'', ''p2''] {''p1'', ''p2''} 10
     = (1 / log 2 3 + 1 / 2) / (1 + 1 / log 2 3)"
  by (simp add: compute_ndcg_at_k_def compute_dcg_at_k_def py_slice_def py_bound_def Let_def
      log2_4 numeral_2_eq_2)

lemma ndcg_ratio_bounds:
  fixes L :: real
  assumes lo: "84 / 53 < L" and hi: "L < 485 / 306"
  shows "6934 / 10000 < (1 / L + 1 / 2) / (1 + 1 / L)"
    and "(1 / L + 1 / 2) / (1 + 1 / L) < 69345 / 100000"
proof -
  have pos: "0 < L" using lo by linarith
  have a: "1 / L + 1 / 2 = (2 + L) / (2 * L)" using pos by (simp add: field_simps)
  have b: "1 + 1 / L = (L + 1) / L" using pos by (simp add: field_simps)
  have "(2 + L) / (2 * L) / ((L + 1) / L) = (2 + L) / (2 * (L + 1))"
    using pos by simp
  then have eq: "(1 / L + 1 / 2) / (1 + 1 / L) = (2 + L) / (2 * (L + 1))"
    by (simp only: a b)
  have "6934 / 10000 < (2 + L) / (2 * (L + 1))"
    using pos hi by (simp add: field_simps)
  then show "6934 / 10000 < (1 / L + 1 / 2) / (1 + 1 / L)"
    by (simp only: eq)
  have "(2 + L) / (2 * (L + 1)) < 69345 / 100000"
    using pos lo by (simp add: field_simps)
  then show "(1 / L + 1 / 2) / (1 + 1 / L) < 69345 / 100000"
    by (simp only: eq)
qed

lemma ndcg_example_bounds:
  "6934 / 10000 < compute_ndcg_at_k [''p3'', ''p1'', ''p2''] {''p1'', ''p2''} 10"
  "compute_ndcg_at_k [''p3'', ''p1'', ''p2''] {''p1'', ''p2''} 10 < 69345 / 100000"
  using ndcg_ratio_bounds [OF log2_3_lower log2_3_upper]
  by (simp_all only: ndcg_example_value)

text \<open>
  C2. For the relevant set \<open>{p1, p2}\<close> and the ranking \<open>[p3, p1, p2]\<close>,
  Recall@10 is 1, MRR is 1/2, and NDCG@10, which is
  \<open>(1/log2 3 + 1/log2 4) / (1/log2 2 + 1/log2 3)\<close>, is 0.6934 to four decimals.
\<close>

theorem ground_truth_example:
  "compute_recall_at_k_eval [''p3'', ''p1'', ''p2''] {''p1'', ''p2''} 10 = 1 \<and>
   compute_mrr_eval [''p3'', ''p1'', ''p2''] {''p1'', ''p2''} = 1 / 2 \<and>
   \<bar>compute_ndcg_at_k [''p3'', ''p1'', ''p2''] {''p1'', ''p2''} 10 - 6934 / 10000\<bar> < 1 / 20000"
proof -
  have r: "compute_recall_at_k_eval [''p3'', ''p1'', ''p2''] {''p1'', ''p2''} 10 = 1"
    by (simp add: compute_recall_at_k_eval_def py_slice_def py_bound_def Let_def)
  have m: "compute_mrr_eval [''p3'', ''p1'', ''p2''] {''p1'', ''p2''} = 1 / 2"
    by (simp add: compute_mrr_eval_def)
  show ?thesis using r m ndcg_example_bounds by (simp add: abs_less_iff)
qed

text \<open>The NDCG@10 of this ranking is more than 0.2 away from 0.9197.\<close>

theorem ground_truth_ndcg_counterexample:
  "\<bar>compute_ndcg_at_k [''p3'', ''p1'', ''p2''] {''p1'', ''p2''} 10 - 9197 / 10000\<bar> > 2 / 10"
  using ndcg_example_bounds(2) by simp

section \<open>Properties of the count-based verdict\<close>















text \<open>
  A table without any compared point is outside the theorem above. On the empty table
  every count reaches every fraction of zero, and the first branch is taken.
\<close>

lemma compute_verdict_empty:
  "v_confidence (compute_verdict []) = ''high'' \<and> v_exploitable (compute_verdict [])"
  by (simp add: compute_verdict_def count_values_def MODERATE_IMPROVEMENT_THRESHOLD_def
      HIGH_IMPROVEMENT_THRESHOLD_def)


section \<open>Properties of the stability analyzer\<close>

lemma fold_append_filter:
  "fold (\<lambda>i acc. if P i then acc @ [f i] else acc) xs acc0 = acc0 @ map f (filter P xs)"
  by (induction xs arbitrary: acc0) auto

lemma crosses_zero_from_left: "crosses_zero a b = crosses_from_left a b"
  by (cases a; cases b) (auto simp: crosses_zero_def crosses_from_left_def)

lemma crosses_from_left_sign: "crosses_from_left a b \<Longrightarrow> sign_changes_touching a b"
  by (cases a; cases b) (auto simp: crosses_from_left_def sign_changes_touching_def sgn_real_def)

lemma find_zero_crossings_eq:
  "find_zero_crossings gs ms =
     map (\<lambda>i. gs ! i) (filter (\<lambda>i. crosses_from_left (ms ! i) (ms ! (i + 1))) [0..<length ms - 1])"
  unfolding find_zero_crossings_def crosses_zero_from_left
  by (simp add: fold_append_filter)

lemma map_fst_append_delta:
  "map fst (append_delta g d acc)
     = (if g \<in> fst ` set acc then map fst acc else map fst acc @ [g])"
proof (induction acc)
  case Nil
  show ?case by simp
next
  case (Cons e acc)
  obtain h ds where e: "e = (h, ds)" by (cases e)
  show ?case using Cons.IH by (simp add: e)
qed

lemma keys_append_delta:
  "fst ` set (append_delta g d acc) = insert g (fst ` set acc)"
proof -
  have "set (map fst (append_delta g d acc)) = insert g (set (map fst acc))"
    unfolding map_fst_append_delta by auto
  then show ?thesis by simp
qed

lemma distinct_append_delta:
  "distinct (map fst acc) \<Longrightarrow> distinct (map fst (append_delta g d acc))"
  unfolding map_fst_append_delta by simp

lemma deltas_at_append_delta:
  "deltas_at (append_delta g d acc) g' =
     (if g' = g then deltas_at acc g @ [d] else deltas_at acc g')"
  by (induction acc) (auto simp: deltas_at_def)

lemma fold_points_keys:
  "fst ` set (fold (\<lambda>point. append_delta (pt_grid point) (point_delta point)) points acc)
     = fst ` set acc \<union> pt_grid ` set points"
proof (induction points arbitrary: acc)
  case Nil
  show ?case by simp
next
  case (Cons p points)
  show ?case by (simp add: Cons.IH keys_append_delta)
qed

lemma fold_points_distinct:
  "distinct (map fst acc) \<Longrightarrow>
     distinct (map fst (fold (\<lambda>point. append_delta (pt_grid point) (point_delta point)) points acc))"
  by (induction points arbitrary: acc) (auto simp: distinct_append_delta)

lemma fold_points_deltas:
  "deltas_at (fold (\<lambda>point. append_delta (pt_grid point) (point_delta point)) points acc) g
     = deltas_at acc g @ deltas_for g points"
  by (induction points arbitrary: acc) (auto simp: deltas_at_append_delta deltas_for_def)

lemma collect_deltas_concat_aux:
  "fold (\<lambda>result acc. fold (\<lambda>point. append_delta (pt_grid point) (point_delta point)) result acc)
       results acc
   = fold (\<lambda>point. append_delta (pt_grid point) (point_delta point)) (concat results) acc"
  by (induction results arbitrary: acc) auto

lemma collect_deltas_concat:
  "collect_deltas results
     = fold (\<lambda>point. append_delta (pt_grid point) (point_delta point)) (concat results) []"
  by (simp add: collect_deltas_def collect_deltas_concat_aux)

lemma collect_deltas_keys:
  "fst ` set (collect_deltas results) = pt_grid ` set (concat results)"
  unfolding collect_deltas_concat fold_points_keys by simp

lemma collect_deltas_distinct: "distinct (map fst (collect_deltas results))"
  unfolding collect_deltas_concat by (rule fold_points_distinct) simp

lemma collect_deltas_at:
  "deltas_at (collect_deltas results) g = deltas_for g (concat results)"
  unfolding collect_deltas_concat fold_points_deltas by (simp add: deltas_at_def)

lemma numbers_of_eq:
  "numbers_of ds = (if list_ex isnan ds then None else Some (map number ds))"
proof (induction ds)
  case Nil
  show ?case by simp
next
  case (Cons d ds)
  then show ?case by (cases d) auto
qed

lemma pf_mean_eq: "ds \<noteq> [] \<Longrightarrow> pf_mean ds = mean_over_runs ds"
  by (simp add: pf_mean_def mean_over_runs_def numbers_of_eq np_mean_def)

lemma deltas_for_nonempty: "g \<in> pt_grid ` set points \<Longrightarrow> deltas_for g points \<noteq> []"
  by (auto simp: deltas_for_def filter_empty_conv)

lemma grid_values_eq:
  "sm_grid_values (compute_stability_metrics results dataset_name)
     = sorted_list_of_set (pt_grid ` set (concat results))"
proof -
  have "sort (map fst (collect_deltas results))
      = sort (remdups (map fst (collect_deltas results)))"
    using collect_deltas_distinct [of results] by (simp add: distinct_remdups_id)
  also have "\<dots> = sorted_list_of_set (set (map fst (collect_deltas results)))"
    by (simp only: sorted_list_of_set_sort_remdups)
  finally show ?thesis
    using collect_deltas_keys [of results]
    by (simp add: compute_stability_metrics_def Let_def)
qed

lemma mean_delta_eq:
  "sm_mean_delta (compute_stability_metrics results dataset_name)
     = map (\<lambda>g. mean_over_runs (deltas_for g (concat results)))
         (sm_grid_values (compute_stability_metrics results dataset_name))"
proof -
  let ?gs = "sort (map fst (collect_deltas results))"
  have "map (\<lambda>g. pf_mean (deltas_at (collect_deltas results) g)) ?gs
      = map (\<lambda>g. mean_over_runs (deltas_for g (concat results))) ?gs"
  proof (rule map_cong [OF refl])
    fix g assume "g \<in> set ?gs"
    then have "g \<in> fst ` set (collect_deltas results)" by simp
    then have "g \<in> pt_grid ` set (concat results)"
      by (simp only: collect_deltas_keys)
    then have "deltas_for g (concat results) \<noteq> []" by (rule deltas_for_nonempty)
    then show "pf_mean (deltas_at (collect_deltas results) g)
        = mean_over_runs (deltas_for g (concat results))"
      by (simp add: collect_deltas_at pf_mean_eq)
  qed
  then show ?thesis by (simp add: compute_stability_metrics_def Let_def)
qed

lemma zero_crossings_eq:
  "sm_zero_crossings (compute_stability_metrics results dataset_name) =
     map (\<lambda>i. sm_grid_values (compute_stability_metrics results dataset_name) ! i)
       (filter (\<lambda>i. crosses_from_left
                      (sm_mean_delta (compute_stability_metrics results dataset_name) ! i)
                      (sm_mean_delta (compute_stability_metrics results dataset_name) ! (i + 1)))
               [0..<length (sm_grid_values (compute_stability_metrics results dataset_name)) - 1])"
  by (simp add: compute_stability_metrics_def Let_def find_zero_crossings_eq)

lemma collect_deltas_sweep_example:
  "collect_deltas sweep_example =
     [(4 / 10, [Num (10 / 100), Num (6 / 100)]),
      (3 / 10, [Num (3 / 100), Num (1 / 100)]),
      (2 / 10, [Num (- 4 / 100), Num (- 6 / 100)]),
      (1 / 10, [Num (- 12 / 100), Num (- 8 / 100), Num (- 10 / 100)])]"
  by (simp add: collect_deltas_def sweep_example_def delta_point_def point_delta_def)

lemma collect_deltas_sweep_touching:
  "collect_deltas sweep_touching =
     [(1 / 10, [Num (- 15 / 100), Num (- 5 / 100)]),
      (2 / 10, [Num (- 2 / 100), Num (2 / 100)])]"
  by (simp add: collect_deltas_def sweep_touching_def delta_point_def point_delta_def)

text \<open>
  C10. The steps of the summary are the distinct grid steps of all runs, in ascending
  order. The mean at a step is the average of the deltas recorded at that step over all
  runs and all values of \<open>k\<close>. A zero crossing is reported at the left step of two
  adjacent steps exactly when the mean at the left step is at most zero and the mean at
  the right step above zero, or the mean at the left step is at least zero and the mean
  at the right step below zero. On two runs whose means over the steps 0.1, 0.2, 0.3,
  0.4 are -0.1, -0.05, 0.02, 0.08 there is exactly one crossing, reported at step 0.2:
  between 0.2 and 0.3.
\<close>

theorem zero_crossings_detected:
  "sm_grid_values (compute_stability_metrics results dataset_name)
     = sorted_list_of_set (pt_grid ` set (concat results)) \<and>
   sm_mean_delta (compute_stability_metrics results dataset_name)
     = map (\<lambda>g. mean_over_runs (deltas_for g (concat results)))
         (sm_grid_values (compute_stability_metrics results dataset_name)) \<and>
   sm_zero_crossings (compute_stability_metrics results dataset_name)
     = map (\<lambda>i. sm_grid_values (compute_stability_metrics results dataset_name) ! i)
         (filter (\<lambda>i. crosses_from_left
                        (sm_mean_delta (compute_stability_metrics results dataset_name) ! i)
                        (sm_mean_delta (compute_stability_metrics results dataset_name) ! (i + 1)))
            [0..<length (sm_grid_values (compute_stability_metrics results dataset_name)) - 1]) \<and>
   sm_grid_values (compute_stability_metrics sweep_example ''example'')
     = [1 / 10, 2 / 10, 3 / 10, 4 / 10] \<and>
   sm_mean_delta (compute_stability_metrics sweep_example ''example'')
     = [Num (- 1 / 10), Num (- 5 / 100), Num (2 / 100), Num (8 / 100)] \<and>
   sm_zero_crossings (compute_stability_metrics sweep_example ''example'') = [2 / 10]"
proof -
  have g: "sm_grid_values (compute_stability_metrics sweep_example ''example'')
      = [1 / 10, 2 / 10, 3 / 10, 4 / 10]"
    by (simp add: compute_stability_metrics_def collect_deltas_sweep_example Let_def)
  have m: "sm_mean_delta (compute_stability_metrics sweep_example ''example'')
      = [Num (- 1 / 10), Num (- 5 / 100), Num (2 / 100), Num (8 / 100)]"
    by (simp add: compute_stability_metrics_def collect_deltas_sweep_example deltas_at_def
        pf_mean_def np_mean_def Let_def)
  have z: "sm_zero_crossings (compute_stability_metrics sweep_example ''example'') = [2 / 10]"
    by (simp add: compute_stability_metrics_def collect_deltas_sweep_example deltas_at_def
        pf_mean_def np_mean_def find_zero_crossings_def crosses_zero_def Let_def upt_rec)
  show ?thesis
    using grid_values_eq [of results dataset_name] mean_delta_eq [of results dataset_name]
      zero_crossings_eq [of results dataset_name] g m z
    by (simp only: simp_thms)
qed

text \<open>
  Two runs whose mean goes from -0.1 at step 0.1 to exactly 0 at step 0.2: the mean
  changes sign by touching zero, and no crossing is reported.
\<close>

theorem zero_crossings_touching_counterexample:
  "sm_grid_values (compute_stability_metrics sweep_touching ''example'') = [1 / 10, 2 / 10] \<and>
   sm_mean_delta (compute_stability_metrics sweep_touching ''example'')
     = [Num (- 1 / 10), Num 0] \<and>
   sign_changes_touching (Num (- 1 / 10)) (Num 0) \<and>
   sm_zero_crossings (compute_stability_metrics sweep_touching ''example'') = []"
  by (simp add: compute_stability_metrics_def collect_deltas_sweep_touching deltas_at_def
      pf_mean_def np_mean_def find_zero_crossings_def crosses_zero_def
      sign_changes_touching_def Let_def upt_rec)

end
